theory Spec2Isabelle
  imports Main "HOL-Library.Multiset" "HOL-Library.Sublist"
    "HOL-Library.Char_ord" "HOL-Library.List_Lexorder"
begin

section \<open>Go strings\<close>

text \<open>
  A Go string is a sequence of bytes; it is modelled as \<open>string\<close> (a list of
  \<open>char\<close>, each one byte). The three functions of package \<open>strings\<close> used by the
  program follow their Go definitions: \<open>HasPrefix\<close> and \<open>HasSuffix\<close> compare a slice
  of the right length, \<open>TrimPrefix\<close> cuts the prefix off when it is there.
\<close>

definition HasPrefix :: "string \<Rightarrow> string \<Rightarrow> bool" where
  "HasPrefix s pre = (length s \<ge> length pre \<and> take (length pre) s = pre)"

definition HasSuffix :: "string \<Rightarrow> string \<Rightarrow> bool" where
  "HasSuffix s suf = (length s \<ge> length suf \<and> drop (length s - length suf) s = suf)"

definition TrimPrefix :: "string \<Rightarrow> string \<Rightarrow> string" where
  "TrimPrefix s pre = (if HasPrefix s pre then drop (length pre) s else s)"

section \<open>context.go: the context and its file list\<close>

record Context =
  Name :: string
  ProjectRoot :: string
  ProjectContext :: string
  Request :: string
  Files :: "string list"

text \<open>
  \<open>AddFile\<close> scans \<open>ctx.Files\<close> for the path and returns false at the first equal
  element; otherwise it appends the path and returns true. The receiver is a pointer, so
  the model returns the updated context together with the result.
\<close>

fun already_present :: "string list \<Rightarrow> string \<Rightarrow> bool" where
  "already_present [] path = False"
| "already_present (f # fs) path = (if f = path then True else already_present fs path)"

definition AddFile :: "Context \<Rightarrow> string \<Rightarrow> Context \<times> bool" where
  "AddFile ctx path =
     (if already_present (Files ctx) path then (ctx, False)
      else (ctx\<lparr>Files := Files ctx @ [path]\<rparr>, True))"

text \<open>
  The loop of \<open>processPaste\<close> over the files of an expanded directory:
  \<open>for _, f := range files { if m.context.AddFile(f) { added++ } }\<close>.
\<close>

fun AddFiles_loop :: "Context \<Rightarrow> nat \<Rightarrow> string list \<Rightarrow> Context \<times> nat" where
  "AddFiles_loop ctx added [] = (ctx, added)"
| "AddFiles_loop ctx added (f # fs) =
     (case AddFile ctx f of
        (ctx', True) \<Rightarrow> AddFiles_loop ctx' (added + 1) fs
      | (ctx', False) \<Rightarrow> AddFiles_loop ctx' added fs)"

text \<open>
  \<open>RemoveFile\<close> builds \<open>newFiles\<close> by appending every element different from the
  path, then stores it. (A nil slice and an empty slice are both the empty list here.)
\<close>

fun RemoveFile_loop :: "string \<Rightarrow> string list \<Rightarrow> string list \<Rightarrow> string list" where
  "RemoveFile_loop path newFiles [] = newFiles"
| "RemoveFile_loop path newFiles (f # fs) =
     RemoveFile_loop path (if f \<noteq> path then newFiles @ [f] else newFiles) fs"

definition RemoveFile :: "Context \<Rightarrow> string \<Rightarrow> Context" where
  "RemoveFile ctx path = ctx\<lparr>Files := RemoveFile_loop path [] (Files ctx)\<rparr>"

text \<open>
  \<open>RemoveFiles\<close> first fills a \<open>map[string]bool\<close> with the paths, then keeps the
  elements whose lookup is false; a key that is not in a Go map reads as false.
\<close>

fun build_pathSet :: "(string \<rightharpoonup> bool) \<Rightarrow> string list \<Rightarrow> (string \<rightharpoonup> bool)" where
  "build_pathSet pathSet [] = pathSet"
| "build_pathSet pathSet (p # ps) = build_pathSet (pathSet(p \<mapsto> True)) ps"

definition map_index :: "(string \<rightharpoonup> bool) \<Rightarrow> string \<Rightarrow> bool" where
  "map_index pathSet f = (case pathSet f of None \<Rightarrow> False | Some b \<Rightarrow> b)"

fun RemoveFiles_loop :: "(string \<rightharpoonup> bool) \<Rightarrow> string list \<Rightarrow> string list \<Rightarrow> string list" where
  "RemoveFiles_loop pathSet newFiles [] = newFiles"
| "RemoveFiles_loop pathSet newFiles (f # fs) =
     RemoveFiles_loop pathSet (if \<not> map_index pathSet f then newFiles @ [f] else newFiles) fs"

definition RemoveFiles :: "Context \<Rightarrow> string list \<Rightarrow> Context" where
  "RemoveFiles ctx paths =
     ctx\<lparr>Files := RemoveFiles_loop (build_pathSet Map.empty paths) [] (Files ctx)\<rparr>"

text \<open>Removing the paths of a list one call at a time.\<close>

fun RemoveFile_each :: "Context \<Rightarrow> string list \<Rightarrow> Context" where
  "RemoveFile_each ctx [] = ctx"
| "RemoveFile_each ctx (p # ps) = RemoveFile_each (RemoveFile ctx p) ps"

section \<open>Formatting and sorting from the Go library\<close>

text \<open>
  \<open>fmt.Sprintf("%d", n)\<close> for a count (the program only formats lengths, which are
  not negative): the decimal digits of \<open>n\<close>.
\<close>

function itoa :: "nat \<Rightarrow> string" where
  "itoa n = (if n < 10 then [''0123456789'' ! n]
             else itoa (n div 10) @ [''0123456789'' ! (n mod 10)])"
  by pat_completeness auto
termination
  by (relation "measure id") auto

declare itoa.simps [simp del]

text \<open>
  \<open>sort.Slice(data, less)\<close>. Go sorts a slice of at most 12 elements by insertion
  sort: element \<open>i\<close> is swapped towards the front while \<open>less(data[j], data[j-1])\<close>.
  \<open>sift_down\<close> is that inner loop on the already sorted prefix, held in reverse
  (nearest neighbour first). For longer slices Go runs a pattern-defeating quicksort,
  which may leave elements that compare equal in another order; the properties proved
  below about a sorted slice (it is ordered, and it is a rearrangement of the input)
  hold for either algorithm, and where the keys are distinct the result is the same.
\<close>

fun sift_down :: "('a \<Rightarrow> 'a \<Rightarrow> bool) \<Rightarrow> 'a \<Rightarrow> 'a list \<Rightarrow> 'a list" where
  "sift_down lt x [] = [x]"
| "sift_down lt x (y # ys) = (if lt x y then y # sift_down lt x ys else x # y # ys)"

fun sort_loop :: "('a \<Rightarrow> 'a \<Rightarrow> bool) \<Rightarrow> 'a list \<Rightarrow> 'a list \<Rightarrow> 'a list" where
  "sort_loop lt front [] = rev front"
| "sort_loop lt front (x # xs) = sort_loop lt (sift_down lt x front) xs"

definition sort_Slice :: "('a \<Rightarrow> 'a \<Rightarrow> bool) \<Rightarrow> 'a list \<Rightarrow> 'a list" where
  "sort_Slice lt xs = sort_loop lt [] xs"

section \<open>history.go: the history directory\<close>

text \<open>
  The instant of a history entry, as far as the program reads it: the fields that
  \<open>Timestamp.Format("2006-01-02_15-04-05")\<close> prints (local civil time, years from 0).
\<close>

record Timestamp =
  year :: nat
  month :: nat
  day :: nat
  hour :: nat
  minute :: nat
  second :: nat

record HistoryEntry =
  hTimestamp :: Timestamp
  hContextName :: string
  hProjectContext :: string
  hRequest :: string
  hFiles :: "string list"

definition maxHistoryEntries :: nat where
  "maxHistoryEntries = 100"

text \<open>Go pads a number to the width of its layout element with zeros.\<close>

definition pad :: "nat \<Rightarrow> nat \<Rightarrow> string" where
  "pad width n = replicate (width - length (itoa n)) (CHR ''0'') @ itoa n"

definition Format :: "Timestamp \<Rightarrow> string" where
  "Format t = pad 4 (year t) @ ''-'' @ pad 2 (month t) @ ''-'' @ pad 2 (day t) @ ''_''
              @ pad 2 (hour t) @ ''-'' @ pad 2 (minute t) @ ''-'' @ pad 2 (second t)"

text \<open>
  \<open>sanitizeFilename\<close> runs \<open>strings.ReplaceAll(result, char, "_")\<close> for each of ten
  one-byte strings in turn; replacing a one-byte string by a one-byte string rewrites
  the bytes one by one.
\<close>

definition ReplaceAll :: "string \<Rightarrow> char \<Rightarrow> char \<Rightarrow> string" where
  "ReplaceAll s old new = map (\<lambda>c. if c = old then new else c) s"

definition unsafe :: "char list" where
  "unsafe = [CHR ''/'', CHR 0x5C, CHR '':'', CHR ''*'', CHR ''?'', CHR 0x22,
             CHR ''<'', CHR ''>'', CHR ''|'', CHR '' '']"

fun sanitize_loop :: "string \<Rightarrow> char list \<Rightarrow> string" where
  "sanitize_loop result [] = result"
| "sanitize_loop result (ch # chs) = sanitize_loop (ReplaceAll result ch (CHR ''_'')) chs"

definition sanitizeFilename :: "string \<Rightarrow> string" where
  "sanitizeFilename name = sanitize_loop name unsafe"


text \<open>
  The directory \<open>~/.ctx/history\<close> is a list of named entries, each a subdirectory or
  a regular file. The bytes of a file written by the program are
  \<open>yaml.Marshal(entry)\<close>; the YAML library is outside the repository, so the model
  keeps the entry itself in place of its serialisation. The model starts where
  \<open>HistoryDir\<close>, \<open>EnsureHistoryDir\<close> and \<open>yaml.Marshal\<close> have succeeded; the
  failure that is left is writing to a name that is a directory.
\<close>

datatype node = SubDir | RegularFile HistoryEntry

type_synonym directory = "(string \<times> node) list"

datatype io_error = EISDIR

definition is_dir :: "string \<times> node \<Rightarrow> bool" where
  "is_dir e = (snd e = SubDir)"

text \<open>\<open>os.WriteFile\<close>: replaces the file of that name or creates it.\<close>

fun store :: "string \<Rightarrow> node \<Rightarrow> directory \<Rightarrow> directory" where
  "store name data [] = [(name, data)]"
| "store name data (e # es) =
     (if fst e = name then (name, data) # es else e # store name data es)"

definition WriteFile :: "string \<Rightarrow> HistoryEntry \<Rightarrow> directory \<Rightarrow> io_error option \<times> directory" where
  "WriteFile name data dir =
     (if map_of dir name = Some SubDir then (Some EISDIR, dir)
      else (None, store name (RegularFile data) dir))"

text \<open>\<open>os.ReadDir\<close> returns the entries sorted by file name.\<close>

definition ReadDir :: "directory \<Rightarrow> (string \<times> node) list" where
  "ReadDir dir = sort_key fst dir"

text \<open>\<open>os.Remove\<close> of a file of the directory; its result is ignored by the caller.\<close>

definition Remove :: "string \<Rightarrow> directory \<Rightarrow> directory" where
  "Remove name dir = filter (\<lambda>e. fst e \<noteq> name) dir"

definition yamlFiles_of :: "(string \<times> node) list \<Rightarrow> (string \<times> node) list" where
  "yamlFiles_of entries = filter (\<lambda>e. \<not> is_dir e \<and> HasSuffix (fst e) ''.yaml'') entries"

definition name_less :: "string \<times> node \<Rightarrow> string \<times> node \<Rightarrow> bool" where
  "name_less a b = (fst a < fst b)"

fun remove_loop :: "(string \<times> node) list \<Rightarrow> directory \<Rightarrow> directory" where
  "remove_loop [] dir = dir"
| "remove_loop (e # es) dir = remove_loop es (Remove (fst e) dir)"

definition PruneHistory :: "directory \<Rightarrow> io_error option \<times> directory" where
  "PruneHistory dir =
     (let entries = ReadDir dir;
          yamlFiles = yamlFiles_of entries
      in if length yamlFiles \<le> maxHistoryEntries then (None, dir)
         else let byName = sort_Slice name_less yamlFiles;
                  toDelete = length yamlFiles - maxHistoryEntries
              in (None, remove_loop (take toDelete byName) dir))"

definition SaveHistoryEntry :: "HistoryEntry \<Rightarrow> directory \<Rightarrow> io_error option \<times> directory" where
  "SaveHistoryEntry entry dir =
     (let filename = Format (hTimestamp entry) @ ''_''
                     @ sanitizeFilename (hContextName entry) @ ''.yaml''
      in case WriteFile filename entry dir of
           (Some err, dir') \<Rightarrow> (Some err, dir')
         | (None, dir') \<Rightarrow> PruneHistory dir')"

section \<open>main.go: building the file list and yanking\<close>

text \<open>
  What the program reaches outside itself during a yank: \<open>os.Stat\<close> and
  \<open>os.ReadFile\<close> (a size, or the bytes, or an error), the clock, the clipboard and
  the history directory.
\<close>

record World =
  stat_size :: "string \<Rightarrow> int option"
  read_file :: "string \<Rightarrow> string option"
  clock :: Timestamp
  clipboard_fault :: "string option"
  clipboard :: "string option"
  history :: directory

text \<open>
  Modelled from the spec: \<open>CopyToClipboard\<close> is called by \<open>yank\<close> but defined in a
  file that is not under src/. The spec gives the clipboard sink as
  \<open>copy(text) -> success | error\<close>, one opaque capability that either succeeds or
  fails: when it works the text becomes the clipboard's content, when it fails
  (\<open>clipboard_fault\<close> holds the error's text) the clipboard is left as it was.
\<close>

definition CopyToClipboard :: "string \<Rightarrow> World \<Rightarrow> string option \<times> World" where
  "CopyToClipboard text w =
     (case clipboard_fault w of
        Some err \<Rightarrow> (Some err, w)
      | None \<Rightarrow> (None, w\<lparr>clipboard := Some text\<rparr>))"

text \<open>
  \<open>FileInfo\<close> without \<open>Project\<close> and \<open>RelPath\<close>: the two fields only feed the
  screen, and \<open>yank\<close> reads neither. Of \<open>Model\<close> the fields that \<open>refreshFiles\<close>
  and \<open>yank\<close> use are kept; the call of \<open>refreshFolders\<close> at the end of
  \<open>refreshFiles\<close>, which only fills \<open>m.folders\<close> for the screen, is left out.
\<close>

record FileInfo =
  Path :: string
  Size :: int
  Exists :: bool
  Selected :: bool

record Model =
  m_context :: Context
  m_files :: "FileInfo list"

definition buildFileInfo :: "World \<Rightarrow> string \<Rightarrow> FileInfo" where
  "buildFileInfo w path =
     (case stat_size w path of
        None \<Rightarrow> \<lparr>Path = path, Size = 0, Exists = False, Selected = False\<rparr>
      | Some sz \<Rightarrow> \<lparr>Path = path, Size = sz, Exists = True, Selected = False\<rparr>)"

definition larger :: "FileInfo \<Rightarrow> FileInfo \<Rightarrow> bool" where
  "larger a b = (Size a > Size b)"

definition refreshFiles :: "World \<Rightarrow> Model \<Rightarrow> Model" where
  "refreshFiles w m =
     m\<lparr>m_files := sort_Slice larger (map (buildFileInfo w) (Files (m_context m)))\<rparr>"

definition preamble :: string where
  "preamble = ''This is a structured prompt for a software development task.\<newline>\<newline><project_context> describes the project: its purpose, tech stack, architecture, and coding conventions. Use this to understand the broader context.\<newline>\<newline><request> contains the specific task or question to address. This is what you should focus on accomplishing.\<newline>\<newline><file> tags contain the relevant source files. Each file has a path attribute. Use these to understand the current implementation and make appropriate changes.\<newline>\<newline>---\<newline>\<newline>''"

definition write_project_context :: "string \<Rightarrow> string \<Rightarrow> string" where
  "write_project_context sb text =
     (if text \<noteq> [] then
        sb @ ''<project_context>\<newline>'' @ text
           @ (if \<not> HasSuffix text ''\<newline>'' then ''\<newline>'' else [])
           @ ''</project_context>\<newline>\<newline>''
      else sb)"

definition write_request :: "string \<Rightarrow> string \<Rightarrow> string" where
  "write_request sb text =
     (if text \<noteq> [] then
        sb @ ''<request>\<newline>'' @ text
           @ (if \<not> HasSuffix text ''\<newline>'' then ''\<newline>'' else [])
           @ ''</request>\<newline>\<newline>''
      else sb)"

definition displayPath :: "string \<Rightarrow> string \<Rightarrow> string" where
  "displayPath projectRoot path =
     (if projectRoot \<noteq> [] then
        (let root = (if \<not> HasSuffix projectRoot ''/'' then projectRoot @ ''/'' else projectRoot)
         in if HasPrefix path root then TrimPrefix path root else path)
      else path)"

definition write_file :: "string \<Rightarrow> string \<Rightarrow> string \<Rightarrow> string" where
  "write_file sb shown content =
     sb @ ''<file path=\"'' @ shown @ ''\">\<newline>'' @ content
        @ (if length content > 0 \<and> last content \<noteq> CHR ''\<newline>'' then ''\<newline>'' else [])
        @ ''</file>\<newline>\<newline>''"

fun write_files :: "World \<Rightarrow> string \<Rightarrow> string \<Rightarrow> FileInfo list \<Rightarrow> string" where
  "write_files w projectRoot sb [] = sb"
| "write_files w projectRoot sb (f # fs) =
     (if \<not> Exists f then write_files w projectRoot sb fs
      else case read_file w (Path f) of
             None \<Rightarrow> write_files w projectRoot sb fs
           | Some content \<Rightarrow>
               write_files w projectRoot
                 (write_file sb (displayPath projectRoot (Path f)) content) fs)"

fun missing_loop :: "string list \<Rightarrow> FileInfo list \<Rightarrow> string list" where
  "missing_loop missing [] = missing"
| "missing_loop missing (f # fs) =
     missing_loop (if \<not> Exists f then missing @ [Path f] else missing) fs"

fun filePaths_loop :: "string list \<Rightarrow> FileInfo list \<Rightarrow> string list" where
  "filePaths_loop filePaths [] = filePaths"
| "filePaths_loop filePaths (f # fs) = filePaths_loop (filePaths @ [Path f]) fs"

text \<open>
  \<open>yank\<close>. Every return of the source goes through \<open>m.setStatus(msg)\<close>, which in
  the source drops the message and returns nil; the model returns the message handed
  to \<open>setStatus\<close>, with the world as the call leaves it. The model \<open>m\<close> itself is
  not changed by \<open>yank\<close>.
\<close>

definition yank :: "Model \<Rightarrow> World \<Rightarrow> string \<times> World" where
  "yank m w =
     (let sb0 = preamble;
          sb1 = write_project_context sb0 (ProjectContext (m_context m));
          sb2 = write_request sb1 (Request (m_context m));
          missing = missing_loop [] (m_files m)
      in if length missing > 0 then
           (''Warning: '' @ itoa (length missing) @ '' file(s) missing'', w)
         else
           let sb3 = write_files w (ProjectRoot (m_context m)) sb2 (m_files m)
           in case CopyToClipboard sb3 w of
                (Some err, w1) \<Rightarrow> (''Clipboard error: '' @ err, w1)
              | (None, w1) \<Rightarrow>
                  let filePaths = filePaths_loop [] (m_files m);
                      entry = \<lparr>hTimestamp = clock w1,
                               hContextName = Name (m_context m),
                               hProjectContext = ProjectContext (m_context m),
                               hRequest = Request (m_context m),
                               hFiles = filePaths\<rparr>;
                      w2 = w1\<lparr>history := snd (SaveHistoryEntry entry (history w1))\<rparr>
                  in (''Yanked '' @ itoa (length (m_files m)) @ '' files to clipboard'', w2))"

text \<open>
  The text that \<open>yank\<close> hands to \<open>CopyToClipboard\<close> when no file is flagged
  missing, and the part of it that one file contributes (nothing when it is skipped).
\<close>

definition document :: "Model \<Rightarrow> World \<Rightarrow> string" where
  "document m w =
     write_files w (ProjectRoot (m_context m))
       (write_request (write_project_context preamble (ProjectContext (m_context m)))
          (Request (m_context m)))
       (m_files m)"

definition file_text :: "World \<Rightarrow> string \<Rightarrow> FileInfo \<Rightarrow> string" where
  "file_text w projectRoot f =
     (if \<not> Exists f then []
      else case read_file w (Path f) of
             None \<Rightarrow> []
           | Some content \<Rightarrow> write_file [] (displayPath projectRoot (Path f)) content)"

text \<open>
  The display path as the specification words it: the root is stripped when the path
  starts with the root followed by a separator. It is compared with \<open>displayPath\<close>
  below.
\<close>

definition spec_displayPath :: "string \<Rightarrow> string \<Rightarrow> string" where
  "spec_displayPath projectRoot path =
     (if projectRoot \<noteq> [] \<and> prefix (projectRoot @ ''/'') path
      then drop (length (projectRoot @ ''/'')) path else path)"

section \<open>A small disk for the examples\<close>

definition example_read :: "string \<Rightarrow> string option" where
  "example_read p =
     (if p = ''/p/a.go'' then Some ''package a\<newline>''
      else if p = ''/p/big.go'' then Some ''package big''
      else if p = ''/p/empty.txt'' then Some []
      else None)"

definition example_stat :: "string \<Rightarrow> int option" where
  "example_stat p =
     (case example_read p of None \<Rightarrow> None | Some content \<Rightarrow> Some (int (length content)))"

definition example_world :: World where
  "example_world =
     \<lparr>stat_size = example_stat, read_file = example_read,
      clock = \<lparr>year = 2025, month = 1, day = 15, hour = 14, minute = 30, second = 45\<rparr>,
      clipboard_fault = None, clipboard = None, history = []\<rparr>"

definition example_model :: "string list \<Rightarrow> Model" where
  "example_model paths =
     refreshFiles example_world
       \<lparr>m_context = \<lparr>Name = ''default'', ProjectRoot = ''/p'', ProjectContext = [],
                      Request = ''task'', Files = paths\<rparr>,
        m_files = []\<rparr>"

section \<open>The history files of a directory, and a full history\<close>







section \<open>exclude.go: exclude rules and directory expansion\<close>

record ExcludeRule =
  RuleName :: string
  Patterns :: "string list"

text \<open>
  \<open>filepath.Base\<close>: the last element of the path, after trailing separators are
  dropped; \<open>.\<close> for the empty path and \<open>/\<close> for a path of separators only.
\<close>

definition Base :: "string \<Rightarrow> string" where
  "Base path =
     (if path = [] then ''.''
      else let stripped = rev (dropWhile (\<lambda>c. c = CHR ''/'') (rev path));
               element = rev (takeWhile (\<lambda>c. c \<noteq> CHR ''/'') (rev stripped))
           in if element = [] then ''/'' else element)"

text \<open>
  \<open>filepath.Join(path, name)\<close> as \<open>WalkDir\<close> uses it, for a path that is already
  clean: one separator between the two, none added after a path that ends in one.
\<close>

definition Join :: "string \<Rightarrow> string \<Rightarrow> string" where
  "Join path name = (if HasSuffix path ''/'' then path @ name else path @ ''/'' @ name)"

text \<open>
  \<open>doublestar.Match\<close> comes from a library outside the repository. \<open>ShouldExclude\<close>
  only reads its boolean result (the error is dropped, so a malformed pattern counts as
  no match); the model takes that result as the parameter \<open>match pattern name\<close>.
\<close>

fun ShouldExclude_loop :: "(string \<Rightarrow> string \<Rightarrow> bool) \<Rightarrow> string list \<Rightarrow> string \<Rightarrow> bool" where
  "ShouldExclude_loop match [] path = False"
| "ShouldExclude_loop match (pattern # patterns) path =
     (if match pattern path then True
      else if match pattern (Base path) then True
      else ShouldExclude_loop match patterns path)"

definition ShouldExclude :: "(string \<Rightarrow> string \<Rightarrow> bool) \<Rightarrow> ExcludeRule \<Rightarrow> string \<Rightarrow> bool" where
  "ShouldExclude match exc path = ShouldExclude_loop match (Patterns exc) path"

text \<open>
  The directory tree under the path given to \<open>ExpandDirectory\<close>: a node is a regular
  file, a directory with its entries in the order \<open>os.ReadDir\<close> returns them, or a
  directory that cannot be read. Each node carries its entry name.
\<close>

datatype fsnode = File string | Dir string "fsnode list" | Unreadable string

fun entry_name :: "fsnode \<Rightarrow> string" where
  "entry_name (File n) = n"
| "entry_name (Dir n cs) = n"
| "entry_name (Unreadable n) = n"

text \<open>
  \<open>filepath.WalkDir\<close> and the function literal that \<open>ExpandDirectory\<close> passes to
  it. The callback appends to \<open>files\<close>; the model also records in \<open>visited\<close> every
  path the callback is called with, so that what the walk never reaches can be stated.
  As in Go, a directory is first reported to the callback; on \<open>SkipDir\<close> its entries
  are not read; a directory that cannot be read is reported a second time with the
  error; \<open>SkipDir\<close> from an entry ends the loop over its siblings; an error ends
  the walk. A root that does not exist is reported once with the error.
\<close>

datatype fs_error = ENOENT | EACCES

datatype walk_result = Continue | SkipDir | Failed fs_error

record walk_state =
  files :: "string list"
  visited :: "string list"

definition excluded :: "(string \<Rightarrow> string \<Rightarrow> bool) \<Rightarrow> ExcludeRule option \<Rightarrow> string \<Rightarrow> bool" where
  "excluded match exclude path =
     (case exclude of None \<Rightarrow> False | Some exc \<Rightarrow> ShouldExclude match exc path)"

definition callback ::
  "(string \<Rightarrow> string \<Rightarrow> bool) \<Rightarrow> ExcludeRule option \<Rightarrow> string \<Rightarrow> bool \<Rightarrow> fs_error option
     \<Rightarrow> walk_state \<Rightarrow> walk_state \<times> walk_result" where
  "callback match exclude path isDir err st =
     (let st1 = st\<lparr>visited := visited st @ [path]\<rparr>
      in case err of
           Some e \<Rightarrow> (st1, Failed e)
         | None \<Rightarrow>
             if isDir then
               (if excluded match exclude path then (st1, SkipDir) else (st1, Continue))
             else if excluded match exclude path then (st1, Continue)
             else (st1\<lparr>files := files st1 @ [path]\<rparr>, Continue))"

fun walkDir ::
  "(string \<Rightarrow> string \<Rightarrow> bool) \<Rightarrow> ExcludeRule option \<Rightarrow> string \<Rightarrow> fsnode \<Rightarrow> walk_state
     \<Rightarrow> walk_state \<times> walk_result"
and walk_entries ::
  "(string \<Rightarrow> string \<Rightarrow> bool) \<Rightarrow> ExcludeRule option \<Rightarrow> string \<Rightarrow> fsnode list \<Rightarrow> walk_state
     \<Rightarrow> walk_state \<times> walk_result" where
  "walkDir match exclude path (File n) st = callback match exclude path False None st"
| "walkDir match exclude path (Dir n dirs) st =
     (case callback match exclude path True None st of
        (st1, SkipDir) \<Rightarrow> (st1, Continue)
      | (st1, Failed e) \<Rightarrow> (st1, Failed e)
      | (st1, Continue) \<Rightarrow> walk_entries match exclude path dirs st1)"
| "walkDir match exclude path (Unreadable n) st =
     (case callback match exclude path True None st of
        (st1, SkipDir) \<Rightarrow> (st1, Continue)
      | (st1, Failed e) \<Rightarrow> (st1, Failed e)
      | (st1, Continue) \<Rightarrow>
          (case callback match exclude path True (Some EACCES) st1 of
             (st2, SkipDir) \<Rightarrow> (st2, Continue)
           | (st2, Failed e) \<Rightarrow> (st2, Failed e)
           | (st2, Continue) \<Rightarrow> (st2, Continue)))"
| "walk_entries match exclude path [] st = (st, Continue)"
| "walk_entries match exclude path (d1 # dirs) st =
     (case walkDir match exclude (Join path (entry_name d1)) d1 st of
        (st1, SkipDir) \<Rightarrow> (st1, Continue)
      | (st1, Failed e) \<Rightarrow> (st1, Failed e)
      | (st1, Continue) \<Rightarrow> walk_entries match exclude path dirs st1)"

definition WalkDir ::
  "(string \<Rightarrow> string \<Rightarrow> bool) \<Rightarrow> ExcludeRule option \<Rightarrow> string \<Rightarrow> fsnode option
     \<Rightarrow> walk_state \<times> fs_error option" where
  "WalkDir match exclude root tree =
     (let st0 = \<lparr>files = [], visited = []\<rparr>;
          r = (case tree of
                 None \<Rightarrow> callback match exclude root False (Some ENOENT) st0
               | Some t \<Rightarrow> walkDir match exclude root t st0)
      in case r of
           (st, Failed e) \<Rightarrow> (st, Some e)
         | (st, _) \<Rightarrow> (st, None))"

definition ExpandDirectory ::
  "(string \<Rightarrow> string \<Rightarrow> bool) \<Rightarrow> string \<Rightarrow> fsnode option \<Rightarrow> ExcludeRule option
     \<Rightarrow> string list \<times> fs_error option" where
  "ExpandDirectory match dir tree exclude =
     (case WalkDir match exclude dir tree of (st, err) \<Rightarrow> (files st, err))"

text \<open>
  Modelled from the spec: \<open>doublestar.Match\<close> is not under src/ (it is a third-party
  library). The spec gives glob semantics where \<open>*\<close> matches within one path segment,
  \<open>**\<close> matches across segments (zero or more) and \<open>?\<close> matches one character.
  \<open>glob_match\<close> is that matcher for patterns made of literal characters, \<open>?\<close>,
  \<open>*\<close> and \<open>**\<close>; it is used only to instantiate the parameter \<open>match\<close> in an
  example.
\<close>

fun seg_match :: "string \<Rightarrow> string \<Rightarrow> bool" where
  "seg_match [] [] = True"
| "seg_match [] (c # cs) = False"
| "seg_match (p # ps) [] = (p = CHR ''*'' \<and> seg_match ps [])"
| "seg_match (p # ps) (c # cs) =
     (if p = CHR ''*'' then seg_match ps (c # cs) \<or> seg_match (p # ps) cs
      else (p = CHR ''?'' \<or> p = c) \<and> seg_match ps cs)"

fun segs_match :: "string list \<Rightarrow> string list \<Rightarrow> bool" where
  "segs_match [] [] = True"
| "segs_match [] (n # ns) = False"
| "segs_match (p # ps) [] = (p = ''**'' \<and> segs_match ps [])"
| "segs_match (p # ps) (n # ns) =
     (if p = ''**'' then segs_match ps (n # ns) \<or> segs_match (p # ps) ns
      else seg_match p n \<and> segs_match ps ns)"

fun split_path :: "string \<Rightarrow> string \<Rightarrow> string list" where
  "split_path seg [] = [rev seg]"
| "split_path seg (c # cs) =
     (if c = CHR ''/'' then rev seg # split_path [] cs else split_path (c # seg) cs)"

definition glob_match :: "string \<Rightarrow> string \<Rightarrow> bool" where
  "glob_match pattern name = segs_match (split_path [] pattern) (split_path [] name)"

definition example_tree :: fsnode where
  "example_tree =
     Dir ''root''
       [Dir ''node_modules'' [Dir ''pkg'' [File ''index.js'']],
        Dir ''src'' [File ''main.go'']]"

definition example_rule :: ExcludeRule where
  "example_rule = \<lparr>RuleName = ''default'', Patterns = [''**/node_modules/**'']\<rparr>"

text \<open>
  The tree as a list: every node with its path, whether it is a directory, and the
  paths of the directories above it, from the root of the walk down. \<open>kept_files\<close>
  selects the regular files that do not match the rule and have no matching directory
  above them; \<open>reached\<close> selects the nodes with no matching directory above them.
\<close>

record tree_entry =
  e_path :: string
  e_is_dir :: bool
  e_parents :: "string list"

fun entries_of :: "string list \<Rightarrow> string \<Rightarrow> fsnode \<Rightarrow> tree_entry list"
and entries_of_list :: "string list \<Rightarrow> string \<Rightarrow> fsnode list \<Rightarrow> tree_entry list" where
  "entries_of parents path (File n) = [\<lparr>e_path = path, e_is_dir = False, e_parents = parents\<rparr>]"
| "entries_of parents path (Dir n dirs) =
     \<lparr>e_path = path, e_is_dir = True, e_parents = parents\<rparr>
       # entries_of_list (parents @ [path]) path dirs"
| "entries_of parents path (Unreadable n) = [\<lparr>e_path = path, e_is_dir = True, e_parents = parents\<rparr>]"
| "entries_of_list parents path [] = []"
| "entries_of_list parents path (d1 # dirs) =
     entries_of parents (Join path (entry_name d1)) d1 @ entries_of_list parents path dirs"

fun readable :: "fsnode \<Rightarrow> bool" and readable_list :: "fsnode list \<Rightarrow> bool" where
  "readable (File n) = True"
| "readable (Dir n dirs) = readable_list dirs"
| "readable (Unreadable n) = False"
| "readable_list [] = True"
| "readable_list (d1 # dirs) = (readable d1 \<and> readable_list dirs)"

definition clear_of :: "(string \<Rightarrow> string \<Rightarrow> bool) \<Rightarrow> ExcludeRule option \<Rightarrow> string list \<Rightarrow> bool" where
  "clear_of match exclude parents = (\<forall>a \<in> set parents. \<not> excluded match exclude a)"

definition kept_files ::
  "(string \<Rightarrow> string \<Rightarrow> bool) \<Rightarrow> ExcludeRule option \<Rightarrow> tree_entry list \<Rightarrow> string list" where
  "kept_files match exclude es =
     map e_path (filter (\<lambda>e. \<not> e_is_dir e \<and> \<not> excluded match exclude (e_path e)
                              \<and> clear_of match exclude (e_parents e)) es)"

definition reached ::
  "(string \<Rightarrow> string \<Rightarrow> bool) \<Rightarrow> ExcludeRule option \<Rightarrow> tree_entry list \<Rightarrow> string list" where
  "reached match exclude es =
     map e_path (filter (\<lambda>e. clear_of match exclude (e_parents e)) es)"

section \<open>Properties of the file list\<close>

lemma already_present_iff: "already_present fs path \<longleftrightarrow> path \<in> set fs"
  by (induction fs) auto

lemma AddFile_Files:
  "Files (fst (AddFile ctx path)) =
     (if path \<in> set (Files ctx) then Files ctx else Files ctx @ [path])"
  by (simp add: AddFile_def already_present_iff)

lemma AddFile_result: "snd (AddFile ctx path) \<longleftrightarrow> path \<notin> set (Files ctx)"
  by (simp add: AddFile_def already_present_iff)

lemma AddFile_distinct:
  "distinct (Files ctx) \<Longrightarrow> distinct (Files (fst (AddFile ctx path)))"
  by (simp add: AddFile_Files)

lemma AddFiles_loop_distinct:
  "distinct (Files ctx) \<Longrightarrow> distinct (Files (fst (AddFiles_loop ctx added ps)))"
proof (induction ps arbitrary: ctx added)
  case Nil
  then show ?case by simp
next
  case (Cons p ps)
  obtain ctx' b where step: "AddFile ctx p = (ctx', b)"
    by (cases "AddFile ctx p")
  from Cons.prems have "distinct (Files ctx')"
    using AddFile_distinct [of ctx p] step by simp
  then show ?case
    using Cons.IH step by (cases b) simp_all
qed

lemma RemoveFile_loop_filter:
  "RemoveFile_loop path acc fs = acc @ filter (\<lambda>f. f \<noteq> path) fs"
  by (induction fs arbitrary: acc) auto

lemma RemoveFile_Files: "Files (RemoveFile ctx path) = filter (\<lambda>f. f \<noteq> path) (Files ctx)"
  by (simp add: RemoveFile_def RemoveFile_loop_filter)

lemma build_pathSet_lookup:
  "map_index (build_pathSet m ps) f \<longleftrightarrow> f \<in> set ps \<or> map_index m f"
  by (induction ps arbitrary: m) (auto simp: map_index_def)

lemma map_index_empty: "\<not> map_index Map.empty f"
  by (simp add: map_index_def)

lemma RemoveFiles_loop_filter:
  "RemoveFiles_loop m acc fs = acc @ filter (\<lambda>f. \<not> map_index m f) fs"
  by (induction fs arbitrary: acc) auto

lemma RemoveFiles_Files:
  "Files (RemoveFiles ctx paths) = filter (\<lambda>f. f \<notin> set paths) (Files ctx)"
  by (simp add: RemoveFiles_def RemoveFiles_loop_filter build_pathSet_lookup map_index_empty)

lemma filter_neq_then_notin:
  "filter (\<lambda>f. f \<notin> set ps) (filter (\<lambda>f. f \<noteq> p) xs) = filter (\<lambda>f. f \<notin> set (p # ps)) xs"
  by (induction xs) auto

lemma filter_neq_absent: "p \<notin> set xs \<Longrightarrow> filter (\<lambda>f. f \<noteq> p) xs = xs"
  by (induction xs) auto

lemma RemoveFile_each_Files:
  "Files (RemoveFile_each ctx ps) = filter (\<lambda>f. f \<notin> set ps) (Files ctx)"
proof (induction ps arbitrary: ctx)
  case Nil
  then show ?case by simp
next
  case (Cons p ps)
  have "Files (RemoveFile_each (RemoveFile ctx p) ps) =
        filter (\<lambda>f. f \<notin> set ps) (filter (\<lambda>f. f \<noteq> p) (Files ctx))"
    by (simp add: Cons.IH RemoveFile_Files)
  also have "\<dots> = filter (\<lambda>f. f \<notin> set (p # ps)) (Files ctx)"
    by (rule filter_neq_then_notin)
  finally show ?case by simp
qed

lemma RemoveFile_more: "Context.more (RemoveFile ctx p) = Context.more ctx"
  and RemoveFile_Name: "Name (RemoveFile ctx p) = Name ctx"
  and RemoveFile_ProjectRoot: "ProjectRoot (RemoveFile ctx p) = ProjectRoot ctx"
  and RemoveFile_ProjectContext: "ProjectContext (RemoveFile ctx p) = ProjectContext ctx"
  and RemoveFile_Request: "Request (RemoveFile ctx p) = Request ctx"
  by (simp_all add: RemoveFile_def)

lemma RemoveFile_each_as_update:
  "RemoveFile_each ctx ps = ctx\<lparr>Files := filter (\<lambda>f. f \<notin> set ps) (Files ctx)\<rparr>"
proof (induction ps arbitrary: ctx)
  case Nil
  then show ?case by simp
next
  case (Cons p ps)
  have "filter (\<lambda>f. f \<notin> set ps) (filter (\<lambda>f. f \<noteq> p) (Files ctx)) =
        filter (\<lambda>f. f \<notin> set (p # ps)) (Files ctx)"
    by (rule filter_neq_then_notin)
  then show ?case
    by (simp add: Cons.IH RemoveFile_def RemoveFile_loop_filter)
qed

lemma RemoveFiles_as_update:
  "RemoveFiles ctx ps = ctx\<lparr>Files := filter (\<lambda>f. f \<notin> set ps) (Files ctx)\<rparr>"
  by (simp add: RemoveFiles_def RemoveFiles_loop_filter build_pathSet_lookup map_index_empty)

text \<open>
  C4. Starting from a file list without duplicates, any sequence of \<open>AddFile\<close> calls
  leaves a list without duplicates. \<open>AddFile\<close> appends the path exactly when it is not
  yet in the list (compared as a string, so \<open>/a/b\<close> and \<open>/a/./b\<close> are two paths),
  returns true exactly when it appended, and returns the context unchanged with false.
\<close>

theorem AddFile_dedup_invariant:
  "(distinct (Files ctx) \<longrightarrow> distinct (Files (fst (AddFiles_loop ctx n paths))))
   \<and> (snd (AddFile ctx path) \<longleftrightarrow> path \<notin> set (Files ctx))
   \<and> (snd (AddFile ctx path) \<longrightarrow> Files (fst (AddFile ctx path)) = Files ctx @ [path])
   \<and> (\<not> snd (AddFile ctx path) \<longrightarrow> fst (AddFile ctx path) = ctx)
   \<and> AddFile (ctx\<lparr>Files := [''/a/b'']\<rparr>) ''/a/./b''
       = (ctx\<lparr>Files := [''/a/b'', ''/a/./b'']\<rparr>, True)"
proof (intro conjI impI)
  assume "distinct (Files ctx)"
  then show "distinct (Files (fst (AddFiles_loop ctx n paths)))"
    by (rule AddFiles_loop_distinct)
next
  show "snd (AddFile ctx path) \<longleftrightarrow> path \<notin> set (Files ctx)"
    by (rule AddFile_result)
next
  assume "snd (AddFile ctx path)"
  then show "Files (fst (AddFile ctx path)) = Files ctx @ [path]"
    by (simp add: AddFile_def already_present_iff split: if_splits)
next
  assume "\<not> snd (AddFile ctx path)"
  then show "fst (AddFile ctx path) = ctx"
    by (simp add: AddFile_def split: if_splits)
next
  show "AddFile (ctx\<lparr>Files := [''/a/b'']\<rparr>) ''/a/./b''
       = (ctx\<lparr>Files := [''/a/b'', ''/a/./b'']\<rparr>, True)"
    by (simp add: AddFile_def)
qed

theorem AddFile_dedup_invariant_witness:
  "distinct (Files \<lparr>Name = ''default'', ProjectRoot = [], ProjectContext = [], Request = [],
                    Files = [''/p/a.go'', ''/p/b.go'']\<rparr>)
   \<and> Files (fst (AddFiles_loop
        \<lparr>Name = ''default'', ProjectRoot = [], ProjectContext = [], Request = [],
         Files = [''/p/a.go'', ''/p/b.go'']\<rparr> 0 [''/p/b.go'', ''/p/c.go'', ''/p/c.go'']))
       = [''/p/a.go'', ''/p/b.go'', ''/p/c.go'']
   \<and> snd (AddFile \<lparr>Name = ''default'', ProjectRoot = [], ProjectContext = [], Request = [],
                   Files = [''/p/a.go'', ''/p/b.go'']\<rparr> ''/p/c.go'')
   \<and> \<not> snd (AddFile \<lparr>Name = ''default'', ProjectRoot = [], ProjectContext = [], Request = [],
                   Files = [''/p/a.go'', ''/p/b.go'']\<rparr> ''/p/a.go'')"
  using AddFile_dedup_invariant
    [of "\<lparr>Name = ''default'', ProjectRoot = [], ProjectContext = [], Request = [],
          Files = [''/p/a.go'', ''/p/b.go'']\<rparr>" 0 "[''/p/b.go'', ''/p/c.go'', ''/p/c.go'']"
        "''/p/c.go''"]
  by (simp add: AddFile_def)

text \<open>
  C9. \<open>RemoveFile\<close> twice is \<open>RemoveFile\<close> once, and removing a path that is not in
  the list changes nothing. \<open>RemoveFiles\<close> keeps exactly the elements that are not among
  the given paths, in their original order: the result is the file list filtered, so
  its elements are those of the list minus the given paths and it is a subsequence of
  the list.
\<close>

theorem RemoveFile_idempotent:
  "RemoveFile (RemoveFile ctx p) p = RemoveFile ctx p
   \<and> (p \<notin> set (Files ctx) \<longrightarrow> RemoveFile ctx p = ctx)
   \<and> Files (RemoveFiles ctx paths) = filter (\<lambda>f. f \<notin> set paths) (Files ctx)
   \<and> set (Files (RemoveFiles ctx paths)) = set (Files ctx) - set paths
   \<and> subseq (Files (RemoveFiles ctx paths)) (Files ctx)"
proof (intro conjI impI)
  show "RemoveFile (RemoveFile ctx p) p = RemoveFile ctx p"
    by (simp add: RemoveFile_def RemoveFile_loop_filter)
next
  assume "p \<notin> set (Files ctx)"
  then have "filter (\<lambda>f. f \<noteq> p) (Files ctx) = Files ctx"
    by (rule filter_neq_absent)
  then show "RemoveFile ctx p = ctx"
    by (simp add: RemoveFile_def RemoveFile_loop_filter)
next
  show "Files (RemoveFiles ctx paths) = filter (\<lambda>f. f \<notin> set paths) (Files ctx)"
    by (rule RemoveFiles_Files)
next
  show "set (Files (RemoveFiles ctx paths)) = set (Files ctx) - set paths"
    by (auto simp: RemoveFiles_Files)
next
  show "subseq (Files (RemoveFiles ctx paths)) (Files ctx)"
    by (simp add: RemoveFiles_Files)
qed

theorem RemoveFile_idempotent_witness:
  "''/p/z.go'' \<notin> set (Files \<lparr>Name = ''default'', ProjectRoot = [], ProjectContext = [],
        Request = [], Files = [''/p/a.go'', ''/p/b.go'', ''/p/c.go'']\<rparr>)
   \<and> RemoveFile \<lparr>Name = ''default'', ProjectRoot = [], ProjectContext = [],
        Request = [], Files = [''/p/a.go'', ''/p/b.go'', ''/p/c.go'']\<rparr> ''/p/z.go''
     = \<lparr>Name = ''default'', ProjectRoot = [], ProjectContext = [],
        Request = [], Files = [''/p/a.go'', ''/p/b.go'', ''/p/c.go'']\<rparr>
   \<and> Files (RemoveFiles \<lparr>Name = ''default'', ProjectRoot = [], ProjectContext = [],
        Request = [], Files = [''/p/a.go'', ''/p/b.go'', ''/p/c.go'']\<rparr> [''/p/c.go'', ''/p/a.go''])
     = [''/p/b.go'']"
  using RemoveFile_idempotent
    [of "\<lparr>Name = ''default'', ProjectRoot = [], ProjectContext = [],
          Request = [], Files = [''/p/a.go'', ''/p/b.go'', ''/p/c.go'']\<rparr>" "''/p/z.go''"
        "[''/p/c.go'', ''/p/a.go'']"]
  by simp

text \<open>
  C10. For every context and every list of paths, \<open>RemoveFiles\<close> gives the same
  context as calling \<open>RemoveFile\<close> once per path, whatever the order in which the
  paths are taken.
\<close>

theorem RemoveFiles_eq_RemoveFile_each:
  "mset paths' = mset paths \<Longrightarrow> RemoveFile_each ctx paths' = RemoveFiles ctx paths"
proof -
  assume "mset paths' = mset paths"
  then have "set paths' = set paths"
    by (rule mset_eq_setD)
  then show ?thesis
    by (simp add: RemoveFile_each_as_update RemoveFiles_as_update)
qed

theorem RemoveFiles_eq_RemoveFile_each_witness:
  "mset [''/p/c.go'', ''/p/a.go'', ''/p/x.go''] = mset [''/p/a.go'', ''/p/x.go'', ''/p/c.go'']
   \<and> RemoveFile_each \<lparr>Name = ''default'', ProjectRoot = [], ProjectContext = [],
        Request = [], Files = [''/p/a.go'', ''/p/b.go'', ''/p/c.go'']\<rparr>
        [''/p/c.go'', ''/p/a.go'', ''/p/x.go'']
     = RemoveFiles \<lparr>Name = ''default'', ProjectRoot = [], ProjectContext = [],
        Request = [], Files = [''/p/a.go'', ''/p/b.go'', ''/p/c.go'']\<rparr>
        [''/p/a.go'', ''/p/x.go'', ''/p/c.go'']"
proof -
  have h: "mset [''/p/c.go'', ''/p/a.go'', ''/p/x.go'']
         = mset [''/p/a.go'', ''/p/x.go'', ''/p/c.go'']"
    by (simp add: add.commute add.left_commute)
  show ?thesis
    using h RemoveFiles_eq_RemoveFile_each [OF h] by simp
qed

section \<open>Go string functions\<close>

lemma HasPrefix_prefix: "HasPrefix s pre \<longleftrightarrow> prefix pre s"
  by (auto simp: HasPrefix_def prefix_def) (metis append_take_drop_id)

lemma HasSuffix_char: "HasSuffix s [c] \<longleftrightarrow> s \<noteq> [] \<and> last s = c"
proof (cases s rule: rev_cases)
  case Nil
  then show ?thesis by (simp add: HasSuffix_def)
next
  case (snoc ys y)
  then show ?thesis by (auto simp: HasSuffix_def)
qed

section \<open>The display path\<close>

lemma displayPath_no_separator:
  "\<not> HasSuffix projectRoot ''/'' \<Longrightarrow>
     displayPath projectRoot path = spec_displayPath projectRoot path"
  by (simp add: displayPath_def spec_displayPath_def TrimPrefix_def Let_def HasPrefix_prefix)

lemma displayPath_separator:
  "HasSuffix projectRoot ''/'' \<Longrightarrow>
     displayPath projectRoot path =
       (if prefix projectRoot path then drop (length projectRoot) path else path)"
  by (auto simp: displayPath_def TrimPrefix_def Let_def HasSuffix_def HasPrefix_prefix)

text \<open>
  C7, as stated, fails for a project root that already ends in a separator: with
  \<open>project_root = /a/b/\<close> the path \<open>/a/b/c\<close> does not start with the root followed
  by a separator (that would be \<open>/a/b//\<close>), yet the code shows it as \<open>c\<close>.
\<close>

theorem displayPath_trailing_separator_counterexample:
  "\<not> prefix (''/a/b/'' @ ''/'') ''/a/b/c''
   \<and> displayPath ''/a/b/'' ''/a/b/c'' = ''c''
   \<and> displayPath ''/a/b/'' ''/a/b/c'' \<noteq> spec_displayPath ''/a/b/'' ''/a/b/c''"
  by (simp add: displayPath_def spec_displayPath_def TrimPrefix_def HasPrefix_def HasSuffix_def)

text \<open>
  C7, amended. The root is first made to end in a separator: one is appended only when
  the root does not already end in one. For a root that does not end in a separator
  the display path is the path with root and separator stripped exactly when the root
  is set and the path starts with the root followed by a separator, and the unchanged
  path otherwise; for a root that ends in a separator the root itself is the prefix that
  is looked for and stripped. So \<open>/a/b\<close> shows \<open>/a/b/c\<close> as \<open>c\<close> and leaves
  \<open>/a/bc\<close> as it is.
\<close>

theorem displayPath_strips_project_root:
  "(\<not> HasSuffix projectRoot ''/'' \<longrightarrow>
      displayPath projectRoot path =
        (if projectRoot \<noteq> [] \<and> prefix (projectRoot @ ''/'') path
         then drop (length projectRoot + 1) path else path))
   \<and> (HasSuffix projectRoot ''/'' \<longrightarrow>
      displayPath projectRoot path =
        (if prefix projectRoot path then drop (length projectRoot) path else path))
   \<and> displayPath ''/a/b'' ''/a/b/c'' = ''c''
   \<and> displayPath ''/a/b'' ''/a/bc'' = ''/a/bc''
   \<and> displayPath ''/home/u/proj'' ''/home/u/proj/src/x.go'' = ''src/x.go''
   \<and> displayPath ''/home/u/proj'' ''/home/u/other/y.go'' = ''/home/u/other/y.go''
   \<and> displayPath [] path = path"
proof (intro conjI impI)
  assume "\<not> HasSuffix projectRoot ''/''"
  then show "displayPath projectRoot path =
        (if projectRoot \<noteq> [] \<and> prefix (projectRoot @ ''/'') path
         then drop (length projectRoot + 1) path else path)"
    by (simp add: displayPath_no_separator spec_displayPath_def)
next
  assume "HasSuffix projectRoot ''/''"
  then show "displayPath projectRoot path =
        (if prefix projectRoot path then drop (length projectRoot) path else path)"
    by (rule displayPath_separator)
qed (simp_all add: displayPath_def TrimPrefix_def HasPrefix_def HasSuffix_def)

theorem displayPath_strips_project_root_witness:
  "\<not> HasSuffix ''/home/u/proj'' ''/'' \<and> HasSuffix ''/home/u/proj/'' ''/''
   \<and> prefix (''/home/u/proj'' @ ''/'') ''/home/u/proj/src/x.go''
   \<and> displayPath ''/home/u/proj'' ''/home/u/proj/src/x.go'' = drop 13 ''/home/u/proj/src/x.go''
   \<and> displayPath ''/home/u/proj/'' ''/home/u/proj/src/x.go'' = ''src/x.go''"
  using displayPath_strips_project_root [of "''/home/u/proj''" "''/home/u/proj/src/x.go''"]
    displayPath_strips_project_root [of "''/home/u/proj/''" "''/home/u/proj/src/x.go''"]
  by (simp add: HasSuffix_def)

section \<open>Sorting a slice\<close>

lemma mset_sift_down: "mset (sift_down lt x ys) = add_mset x (mset ys)"
  by (induction ys) auto

lemma set_sift_down: "set (sift_down lt x ys) = insert x (set ys)"
  by (induction ys) auto

lemma mset_sort_loop: "mset (sort_loop lt front xs) = mset front + mset xs"
  by (induction xs arbitrary: front) (auto simp: mset_sift_down)

lemma mset_sort_Slice: "mset (sort_Slice lt xs) = mset xs"
  by (simp add: sort_Slice_def mset_sort_loop)

lemma sorted_sift_down:
  fixes k :: "'a \<Rightarrow> 'b::linorder"
  assumes lt: "\<And>a b. lt a b \<longleftrightarrow> k a < k b"
    and "sorted (map k (rev ys))"
  shows "sorted (map k (rev (sift_down lt x ys)))"
  using assms(2)
proof (induction ys)
  case Nil
  then show ?case by simp
next
  case (Cons y ys)
  show ?case
  proof (cases "lt x y")
    case True
    from Cons.prems have s: "sorted (map k (rev ys))" and le: "\<forall>z \<in> set ys. k z \<le> k y"
      by (auto simp: sorted_append)
    from True lt have "k x \<le> k y" by (simp add: less_imp_le)
    with le have "\<forall>z \<in> set (sift_down lt x ys). k z \<le> k y"
      by (simp add: set_sift_down)
    with Cons.IH [OF s] True show ?thesis
      by (auto simp: sorted_append)
  next
    case False
    with lt have "k y \<le> k x" by (simp add: not_less)
    moreover from Cons.prems have "\<forall>z \<in> set ys. k z \<le> k y"
      by (auto simp: sorted_append)
    ultimately show ?thesis
      using Cons.prems False by (auto simp: sorted_append)
  qed
qed

lemma sorted_sort_loop:
  fixes k :: "'a \<Rightarrow> 'b::linorder"
  assumes lt: "\<And>a b. lt a b \<longleftrightarrow> k a < k b"
  shows "sorted (map k (rev front)) \<Longrightarrow> sorted (map k (sort_loop lt front xs))"
proof (induction xs arbitrary: front)
  case Nil
  then show ?case by (simp add: rev_map)
next
  case (Cons x xs)
  show ?case
    using Cons.IH [OF sorted_sift_down [OF lt Cons.prems]] by simp
qed

lemma sorted_sort_Slice:
  fixes k :: "'a \<Rightarrow> 'b::linorder"
  assumes "\<And>a b. lt a b \<longleftrightarrow> k a < k b"
  shows "sorted (map k (sort_Slice lt xs))"
  unfolding sort_Slice_def by (rule sorted_sort_loop [OF assms]) simp

lemma refreshFiles_sorted:
  "sorted_wrt (\<lambda>a b. Size a \<ge> Size b) (m_files (refreshFiles w m))"
proof -
  have "sorted (map (\<lambda>f. - Size f)
          (sort_Slice larger (map (buildFileInfo w) (Files (m_context m)))))"
    by (rule sorted_sort_Slice) (simp add: larger_def)
  then show ?thesis
    by (simp add: refreshFiles_def sorted_map)
qed

lemma refreshFiles_mset:
  "mset (m_files (refreshFiles w m)) = mset (map (buildFileInfo w) (Files (m_context m)))"
  by (simp add: refreshFiles_def mset_sort_Slice)

section \<open>The three ways out of yank\<close>

lemma missing_loop_filter:
  "missing_loop acc fs = acc @ map Path (filter (\<lambda>f. \<not> Exists f) fs)"
  by (induction fs arbitrary: acc) auto

lemma filePaths_loop_map: "filePaths_loop acc fs = acc @ map Path fs"
  by (induction fs arbitrary: acc) auto

lemma write_file_append: "write_file sb shown content = sb @ write_file [] shown content"
  by (simp add: write_file_def)

lemma write_files_concat:
  "write_files w root sb fs = sb @ concat (map (file_text w root) fs)"
proof (induction fs arbitrary: sb)
  case Nil
  then show ?case by simp
next
  case (Cons f fs)
  show ?case
  proof (cases "Exists f")
    case False
    then show ?thesis by (simp add: Cons.IH file_text_def)
  next
    case True
    then show ?thesis
      by (cases "read_file w (Path f)")
         (simp_all add: Cons.IH file_text_def write_file_append [of "sb @ _"]
            write_file_append [of sb])
  qed
qed

lemma yank_missing:
  assumes "\<exists>f \<in> set (m_files m). \<not> Exists f"
  shows "yank m w = (''Warning: '' @ itoa (length (filter (\<lambda>f. \<not> Exists f) (m_files m)))
                       @ '' file(s) missing'', w)"
proof -
  from assms have "filter (\<lambda>f. \<not> Exists f) (m_files m) \<noteq> []"
    by (simp add: filter_empty_conv)
  then show ?thesis
    by (simp add: yank_def missing_loop_filter Let_def)
qed


lemma yank_success:
  assumes "\<forall>f \<in> set (m_files m). Exists f" and "clipboard_fault w = None"
  shows "yank m w =
     (''Yanked '' @ itoa (length (m_files m)) @ '' files to clipboard'',
      w\<lparr>clipboard := Some (document m w),
        history := snd (SaveHistoryEntry
           \<lparr>hTimestamp = clock w, hContextName = Name (m_context m),
            hProjectContext = ProjectContext (m_context m),
            hRequest = Request (m_context m),
            hFiles = map Path (m_files m)\<rparr> (history w))\<rparr>)"
proof -
  from assms(1) have "filter (\<lambda>f. \<not> Exists f) (m_files m) = []"
    by (simp add: filter_empty_conv)
  then show ?thesis
    using assms(2)
    by (simp add: yank_def missing_loop_filter filePaths_loop_map Let_def CopyToClipboard_def
        document_def)
qed

lemma Exists_buildFileInfo: "Exists (buildFileInfo w p) \<longleftrightarrow> stat_size w p \<noteq> None"
  by (simp add: buildFileInfo_def split: option.splits)

lemma size_filter_mset_list: "size (filter_mset P (mset xs)) = length (filter P xs)"
  by (induction xs) auto

lemma refreshFiles_missing_count:
  "length (filter (\<lambda>f. \<not> Exists f) (m_files (refreshFiles w m)))
     = length (filter (\<lambda>p. stat_size w p = None) (Files (m_context m)))"
proof -
  have "length (filter (\<lambda>f. \<not> Exists f) (m_files (refreshFiles w m)))
          = size (filter_mset (\<lambda>f. \<not> Exists f) (mset (m_files (refreshFiles w m))))"
    by (simp only: size_filter_mset_list)
  also have "\<dots> = size (filter_mset (\<lambda>f. \<not> Exists f)
                       (mset (map (buildFileInfo w) (Files (m_context m)))))"
    by (simp only: refreshFiles_mset)
  also have "\<dots> = length (filter (\<lambda>f. \<not> Exists f)
                       (map (buildFileInfo w) (Files (m_context m))))"
    by (simp only: size_filter_mset_list)
  also have "\<dots> = length (filter (\<lambda>p. stat_size w p = None) (Files (m_context m)))"
    by (simp add: filter_map comp_def Exists_buildFileInfo)
  finally show ?thesis .
qed

lemmas example_defs = example_model_def example_world_def example_stat_def example_read_def
  refreshFiles_def buildFileInfo_def sort_Slice_def larger_def

lemmas yank_defs = yank_def Let_def CopyToClipboard_def write_project_context_def
  write_request_def write_file_def displayPath_def HasSuffix_def HasPrefix_def TrimPrefix_def

text \<open>
  C1, as stated, fails: with one listed file on disk and one missing, yank reports
  the warning with count 1 and returns before anything is assembled for the clipboard;
  no document with the existing file's block is emitted.
\<close>

theorem yank_missing_emits_nothing_counterexample:
  "fst (yank (example_model [''/p/a.go'', ''/p/gone.go'']) example_world)
     = ''Warning: 1 file(s) missing''
   \<and> clipboard (snd (yank (example_model [''/p/a.go'', ''/p/gone.go'']) example_world)) = None"
  by (simp add: example_defs yank_def Let_def itoa.simps)

text \<open>
  C1, amended. For every yank in which at least one listed file is flagged missing,
  yank reports the missing-file warning whose count is the number of files flagged
  missing, and returns at once: the world is as before, so nothing is copied to the
  clipboard and no history entry is saved. The flags are set when \<open>refreshFiles\<close>
  builds the list: the number of flagged files is the number of listed paths on which
  \<open>os.Stat\<close> failed.
\<close>

theorem yank_missing_files_warning:
  "((\<exists>f \<in> set (m_files m). \<not> Exists f) \<longrightarrow>
      yank m w = (''Warning: '' @ itoa (length (filter (\<lambda>f. \<not> Exists f) (m_files m)))
                    @ '' file(s) missing'', w))
   \<and> length (filter (\<lambda>f. \<not> Exists f) (m_files (refreshFiles w m)))
       = length (filter (\<lambda>p. stat_size w p = None) (Files (m_context m)))"
  using yank_missing [of m w] refreshFiles_missing_count [of w m] by blast

theorem yank_missing_files_warning_witness:
  "(\<exists>f \<in> set (m_files (example_model [''/p/x.go'', ''/p/a.go'', ''/p/y.go''])). \<not> Exists f)
   \<and> yank (example_model [''/p/x.go'', ''/p/a.go'', ''/p/y.go'']) example_world
       = (''Warning: 2 file(s) missing'', example_world)"
proof -
  have files: "m_files (example_model [''/p/x.go'', ''/p/a.go'', ''/p/y.go'']) =
      [\<lparr>Path = ''/p/a.go'', Size = 10, Exists = True, Selected = False\<rparr>,
       \<lparr>Path = ''/p/x.go'', Size = 0, Exists = False, Selected = False\<rparr>,
       \<lparr>Path = ''/p/y.go'', Size = 0, Exists = False, Selected = False\<rparr>]"
    by (simp add: example_defs)
  have h: "\<exists>f \<in> set (m_files (example_model [''/p/x.go'', ''/p/a.go'', ''/p/y.go''])). \<not> Exists f"
    by (simp add: files)
  show ?thesis
    using h yank_missing_files_warning
      [of "example_model [''/p/x.go'', ''/p/a.go'', ''/p/y.go'']" example_world]
    by (simp add: files itoa.simps)
qed

text \<open>
  C2, as stated, fails: \<open>/p/a.go\<close> (10 bytes) was added before \<open>/p/big.go\<close>
  (11 bytes), and the document has the block of \<open>big.go\<close> first.
\<close>

theorem yank_order_counterexample:
  "clipboard (snd (yank (example_model [''/p/a.go'', ''/p/big.go'']) example_world))
     = Some (preamble @ ''<request>\<newline>task\<newline></request>\<newline>\<newline><file path=\"big.go\">\<newline>package big\<newline></file>\<newline>\<newline><file path=\"a.go\">\<newline>package a\<newline></file>\<newline>\<newline>'')"
  by (simp add: example_defs yank_defs)

text \<open>
  C2, amended. In the document that yank copies, the file blocks appear in the order
  of the model's file list \<open>m.files\<close> (a file that cannot be read contributes
  nothing). \<open>refreshFiles\<close> builds that list from the context's file list, one entry
  per path, and sorts it by size, largest first: the blocks are in descending order of
  size, not in insertion order.
\<close>

theorem yank_blocks_follow_sorted_file_list:
  "((\<forall>f \<in> set (m_files m). Exists f) \<and> clipboard_fault w = None \<longrightarrow>
      clipboard (snd (yank m w)) =
        Some (write_request (write_project_context preamble (ProjectContext (m_context m)))
                (Request (m_context m))
              @ concat (map (file_text w (ProjectRoot (m_context m))) (m_files m))))
   \<and> sorted_wrt (\<lambda>a b. Size a \<ge> Size b) (m_files (refreshFiles w m))
   \<and> mset (m_files (refreshFiles w m)) = mset (map (buildFileInfo w) (Files (m_context m)))"
proof (intro conjI impI)
  assume "(\<forall>f \<in> set (m_files m). Exists f) \<and> clipboard_fault w = None"
  then have "yank m w =
     (''Yanked '' @ itoa (length (m_files m)) @ '' files to clipboard'',
      w\<lparr>clipboard := Some (document m w),
        history := snd (SaveHistoryEntry
           \<lparr>hTimestamp = clock w, hContextName = Name (m_context m),
            hProjectContext = ProjectContext (m_context m),
            hRequest = Request (m_context m),
            hFiles = map Path (m_files m)\<rparr> (history w))\<rparr>)"
    by (simp add: yank_success)
  then show "clipboard (snd (yank m w)) =
        Some (write_request (write_project_context preamble (ProjectContext (m_context m)))
                (Request (m_context m))
              @ concat (map (file_text w (ProjectRoot (m_context m))) (m_files m)))"
    by (simp add: document_def write_files_concat)
next
  show "sorted_wrt (\<lambda>a b. Size a \<ge> Size b) (m_files (refreshFiles w m))"
    by (rule refreshFiles_sorted)
next
  show "mset (m_files (refreshFiles w m)) = mset (map (buildFileInfo w) (Files (m_context m)))"
    by (rule refreshFiles_mset)
qed

theorem yank_blocks_follow_sorted_file_list_witness:
  "list_all Exists (m_files (example_model [''/p/empty.txt'', ''/p/big.go'']))
   \<and> clipboard_fault example_world = None
   \<and> clipboard (snd (yank (example_model [''/p/empty.txt'', ''/p/big.go'']) example_world))
       = Some (preamble @ ''<request>\<newline>task\<newline></request>\<newline>\<newline>''
               @ concat (map (file_text example_world ''/p'')
                   [\<lparr>Path = ''/p/big.go'', Size = 11, Exists = True, Selected = False\<rparr>,
                    \<lparr>Path = ''/p/empty.txt'', Size = 0, Exists = True, Selected = False\<rparr>]))"
proof -
  have files: "m_files (example_model [''/p/empty.txt'', ''/p/big.go'']) =
      [\<lparr>Path = ''/p/big.go'', Size = 11, Exists = True, Selected = False\<rparr>,
       \<lparr>Path = ''/p/empty.txt'', Size = 0, Exists = True, Selected = False\<rparr>]"
    by (simp add: example_defs)
  have ctx: "m_context (example_model [''/p/empty.txt'', ''/p/big.go'']) =
      \<lparr>Name = ''default'', ProjectRoot = ''/p'', ProjectContext = [],
       Request = ''task'', Files = [''/p/empty.txt'', ''/p/big.go'']\<rparr>"
    by (simp add: example_model_def refreshFiles_def)
  have h: "(\<forall>f \<in> set (m_files (example_model [''/p/empty.txt'', ''/p/big.go''])). Exists f)
           \<and> clipboard_fault example_world = None"
    by (simp add: files example_world_def)
  show ?thesis
    using h yank_blocks_follow_sorted_file_list
      [of "example_model [''/p/empty.txt'', ''/p/big.go'']" example_world]
    by (simp add: files ctx write_request_def write_project_context_def HasSuffix_def)
qed

section \<open>Trailing newlines\<close>

lemma write_request_shape:
  "text \<noteq> [] \<Longrightarrow>
     write_request sb text =
       sb @ ''<request>\<newline>'' @ text
          @ (if last text = CHR ''\<newline>'' then [] else ''\<newline>'')
          @ ''</request>\<newline>\<newline>''"
  by (simp add: write_request_def HasSuffix_char)

lemma write_project_context_shape:
  "text \<noteq> [] \<Longrightarrow>
     write_project_context sb text =
       sb @ ''<project_context>\<newline>'' @ text
          @ (if last text = CHR ''\<newline>'' then [] else ''\<newline>'')
          @ ''</project_context>\<newline>\<newline>''"
  by (simp add: write_project_context_def HasSuffix_char)

text \<open>
  C6, as stated, fails for an empty file: its content does not end in a newline, and
  still no newline is written between the opening line and \<open></file>\<close>.
\<close>

theorem empty_file_no_newline_counterexample:
  "read_file example_world ''/p/empty.txt'' = Some []
   \<and> \<not> HasSuffix [] ''\<newline>''
   \<and> clipboard (snd (yank (example_model [''/p/empty.txt'']) example_world))
     = Some (preamble @ ''<request>\<newline>task\<newline></request>\<newline>\<newline><file path=\"empty.txt\">\<newline></file>\<newline>\<newline>'')"
  by (simp add: example_defs yank_defs)

text \<open>
  C6, amended. For every non-empty request text the block is \<open><request>\<close> and a
  newline, the text, one newline added exactly when the text does not already end in
  one, then \<open></request>\<close> and a blank line; so \<open>task\<close> and \<open>task\<close> with a
  newline give the same output. The same holds for the project context. In a file
  block a newline is added after the raw bytes exactly when the content is not empty
  and does not already end in one; an empty file gets none. The document that yank
  copies is the preamble followed by these blocks.
\<close>

theorem trailing_newline_normalization:
  "(text \<noteq> [] \<longrightarrow>
      write_request sb text =
        sb @ ''<request>\<newline>'' @ text
           @ (if last text = CHR ''\<newline>'' then [] else ''\<newline>'')
           @ ''</request>\<newline>\<newline>'')
   \<and> (text \<noteq> [] \<and> last text \<noteq> CHR ''\<newline>'' \<longrightarrow>
      write_request sb text = write_request sb (text @ ''\<newline>''))
   \<and> write_request sb ''task'' = sb @ ''<request>\<newline>task\<newline></request>\<newline>\<newline>''
   \<and> write_request sb ''task\<newline>'' = sb @ ''<request>\<newline>task\<newline></request>\<newline>\<newline>''
   \<and> (text \<noteq> [] \<longrightarrow>
      write_project_context sb text =
        sb @ ''<project_context>\<newline>'' @ text
           @ (if last text = CHR ''\<newline>'' then [] else ''\<newline>'')
           @ ''</project_context>\<newline>\<newline>'')
   \<and> (text \<noteq> [] \<and> last text \<noteq> CHR ''\<newline>'' \<longrightarrow>
      write_project_context sb text = write_project_context sb (text @ ''\<newline>''))
   \<and> write_file sb shown content =
        sb @ ''<file path=\"'' @ shown @ ''\">\<newline>'' @ content
           @ (if content \<noteq> [] \<and> last content \<noteq> CHR ''\<newline>'' then ''\<newline>'' else [])
           @ ''</file>\<newline>\<newline>''
   \<and> (content \<noteq> [] \<and> last content \<noteq> CHR ''\<newline>'' \<longrightarrow>
      write_file sb shown content = write_file sb shown (content @ ''\<newline>''))
   \<and> write_file sb shown [] = sb @ ''<file path=\"'' @ shown @ ''\">\<newline></file>\<newline>\<newline>''
   \<and> ((\<forall>f \<in> set (m_files m). Exists f) \<and> clipboard_fault w = None \<longrightarrow>
      clipboard (snd (yank m w)) =
        Some (write_request (write_project_context preamble (ProjectContext (m_context m)))
                (Request (m_context m))
              @ concat (map (file_text w (ProjectRoot (m_context m))) (m_files m))))"
proof (intro conjI impI)
  assume "text \<noteq> []"
  then show "write_request sb text =
        sb @ ''<request>\<newline>'' @ text
           @ (if last text = CHR ''\<newline>'' then [] else ''\<newline>'')
           @ ''</request>\<newline>\<newline>''"
    by (rule write_request_shape)
next
  assume "text \<noteq> [] \<and> last text \<noteq> CHR ''\<newline>''"
  then show "write_request sb text = write_request sb (text @ ''\<newline>'')"
    by (simp add: write_request_shape)
next
  show "write_request sb ''task'' = sb @ ''<request>\<newline>task\<newline></request>\<newline>\<newline>''"
    by (simp add: write_request_shape)
next
  show "write_request sb ''task\<newline>'' = sb @ ''<request>\<newline>task\<newline></request>\<newline>\<newline>''"
    by (simp add: write_request_shape)
next
  assume "text \<noteq> []"
  then show "write_project_context sb text =
        sb @ ''<project_context>\<newline>'' @ text
           @ (if last text = CHR ''\<newline>'' then [] else ''\<newline>'')
           @ ''</project_context>\<newline>\<newline>''"
    by (rule write_project_context_shape)
next
  assume "text \<noteq> [] \<and> last text \<noteq> CHR ''\<newline>''"
  then show "write_project_context sb text = write_project_context sb (text @ ''\<newline>'')"
    by (simp add: write_project_context_shape)
next
  show "write_file sb shown content =
        sb @ ''<file path=\"'' @ shown @ ''\">\<newline>'' @ content
           @ (if content \<noteq> [] \<and> last content \<noteq> CHR ''\<newline>'' then ''\<newline>'' else [])
           @ ''</file>\<newline>\<newline>''"
    by (simp add: write_file_def)
next
  assume "content \<noteq> [] \<and> last content \<noteq> CHR ''\<newline>''"
  then show "write_file sb shown content = write_file sb shown (content @ ''\<newline>'')"
    by (simp add: write_file_def)
next
  show "write_file sb shown [] = sb @ ''<file path=\"'' @ shown @ ''\">\<newline></file>\<newline>\<newline>''"
    by (simp add: write_file_def)
next
  assume "(\<forall>f \<in> set (m_files m). Exists f) \<and> clipboard_fault w = None"
  then have "clipboard (snd (yank m w)) = Some (document m w)"
    by (simp add: yank_success)
  then show "clipboard (snd (yank m w)) =
        Some (write_request (write_project_context preamble (ProjectContext (m_context m)))
                (Request (m_context m))
              @ concat (map (file_text w (ProjectRoot (m_context m))) (m_files m)))"
    by (simp add: document_def write_files_concat)
qed

theorem trailing_newline_normalization_witness:
  "''task'' \<noteq> [] \<and> last ''task'' \<noteq> CHR ''\<newline>''
   \<and> write_request preamble ''task'' = write_request preamble ''task\<newline>''
   \<and> write_project_context preamble ''task'' = write_project_context preamble ''task\<newline>''
   \<and> ''package big'' \<noteq> [] \<and> last ''package big'' \<noteq> CHR ''\<newline>''
   \<and> write_file [] ''big.go'' ''package big'' = write_file [] ''big.go'' ''package big\<newline>''
   \<and> list_all Exists (m_files (example_model [''/p/big.go'']))
   \<and> clipboard_fault example_world = None
   \<and> clipboard (snd (yank (example_model [''/p/big.go'']) example_world))
       = Some (preamble @ ''<request>\<newline>task\<newline></request>\<newline>\<newline><file path=\"big.go\">\<newline>package big\<newline></file>\<newline>\<newline>'')"
proof -
  have files: "m_files (example_model [''/p/big.go'']) =
      [\<lparr>Path = ''/p/big.go'', Size = 11, Exists = True, Selected = False\<rparr>]"
    by (simp add: example_defs)
  have ctx: "m_context (example_model [''/p/big.go'']) =
      \<lparr>Name = ''default'', ProjectRoot = ''/p'', ProjectContext = [],
       Request = ''task'', Files = [''/p/big.go'']\<rparr>"
    by (simp add: example_model_def refreshFiles_def)
  have rd: "read_file example_world ''/p/big.go'' = Some ''package big''"
    by (simp add: example_world_def example_read_def)
  have h: "(\<forall>f \<in> set (m_files (example_model [''/p/big.go''])). Exists f)
           \<and> clipboard_fault example_world = None"
    by (simp add: files example_world_def)
  show ?thesis
    using h trailing_newline_normalization
      [of "''task''" preamble "''big.go''" "''package big''"
          "example_model [''/p/big.go'']" example_world]
    by (simp add: files ctx rd file_text_def displayPath_def HasSuffix_def HasPrefix_def
        TrimPrefix_def write_request_def write_project_context_def write_file_def)
qed

section \<open>Pruning the history\<close>


























lemma map_of_None_iff: "map_of d k = None \<longleftrightarrow> k \<notin> fst ` set d"
  by (simp add: map_of_eq_None_iff)



section \<open>A full history directory\<close>
































section \<open>The history snapshot of a yank\<close>





section \<open>Expanding a directory\<close>

lemma kept_files_append [simp]:
  "kept_files m x (es @ fs) = kept_files m x es @ kept_files m x fs"
  by (simp add: kept_files_def)

lemma reached_append [simp]: "reached m x (es @ fs) = reached m x es @ reached m x fs"
  by (simp add: reached_def)

lemma kept_files_Nil [simp]: "kept_files m x [] = []"
  by (simp add: kept_files_def)

lemma reached_Nil [simp]: "reached m x [] = []"
  by (simp add: reached_def)

lemma parents_grow:
  "e \<in> set (entries_of parents path t) \<Longrightarrow> set parents \<subseteq> set (e_parents e)"
  "e \<in> set (entries_of_list parents path ts) \<Longrightarrow> set parents \<subseteq> set (e_parents e)"
proof (induction parents path t and parents path ts arbitrary: e and e rule: entries_of_entries_of_list.induct)
  case (1 parents path n)
  then show ?case by simp
next
  case (2 parents path n dirs)
  from "2.prems" consider "e = \<lparr>e_path = path, e_is_dir = True, e_parents = parents\<rparr>"
    | "e \<in> set (entries_of_list (parents @ [path]) path dirs)"
    by auto
  then show ?case
  proof cases
    case 1
    then show ?thesis by simp
  next
    case 2
    from "2.IH" [OF this] show ?thesis by simp
  qed
next
  case (3 parents path n)
  then show ?case by simp
next
  case (4 parents path)
  then show ?case by simp
next
  case (5 parents path d1 dirs)
  from "5.prems" consider "e \<in> set (entries_of parents (Join path (entry_name d1)) d1)"
    | "e \<in> set (entries_of_list parents path dirs)"
    by auto
  then show ?case
  proof cases
    case 1
    then show ?thesis by (rule "5.IH"(1))
  next
    case 2
    then show ?thesis by (rule "5.IH"(2))
  qed
qed

lemma below_excluded:
  assumes "a \<in> set parents" and "excluded m x a"
  shows "kept_files m x (entries_of_list parents path ts) = []"
    and "reached m x (entries_of_list parents path ts) = []"
proof -
  have "\<not> clear_of m x (e_parents e)" if "e \<in> set (entries_of_list parents path ts)" for e
  proof -
    from parents_grow(2) [OF that] assms(1) have "a \<in> set (e_parents e)" by blast
    with assms(2) show ?thesis by (auto simp: clear_of_def)
  qed
  then show "kept_files m x (entries_of_list parents path ts) = []"
    and "reached m x (entries_of_list parents path ts) = []"
    by (simp_all add: kept_files_def reached_def filter_empty_conv)
qed

lemma callback_dir:
  "callback m x path True None st =
     (st\<lparr>visited := visited st @ [path]\<rparr>, if excluded m x path then SkipDir else Continue)"
  by (simp add: callback_def Let_def)

lemma callback_file:
  "callback m x path False None st =
     (if excluded m x path then st\<lparr>visited := visited st @ [path]\<rparr>
      else st\<lparr>visited := visited st @ [path], files := files st @ [path]\<rparr>, Continue)"
  by (simp add: callback_def Let_def)

lemma walkDir_excluded_dir:
  "excluded m x path \<Longrightarrow>
     walkDir m x path (Dir n dirs) st = (st\<lparr>visited := visited st @ [path]\<rparr>, Continue)"
  by (simp add: callback_dir)

lemma walk_readable:
  fixes st :: walk_state
  shows "readable t \<Longrightarrow> clear_of m x parents \<Longrightarrow>
     walkDir m x path t st =
       (\<lparr>files = files st @ kept_files m x (entries_of parents path t),
         visited = visited st @ reached m x (entries_of parents path t)\<rparr>, Continue)"
    and "readable_list ts \<Longrightarrow> clear_of m x parents \<Longrightarrow>
     walk_entries m x path ts st =
       (\<lparr>files = files st @ kept_files m x (entries_of_list parents path ts),
         visited = visited st @ reached m x (entries_of_list parents path ts)\<rparr>, Continue)"
proof (induction m x path t st and m x path ts st arbitrary: parents and parents
    rule: walkDir_walk_entries.induct)
  case (1 match exclude path n st)
  then show ?case
    by (simp add: callback_file kept_files_def reached_def)
next
  case (2 match exclude path n dirs st)
  show ?case
  proof (cases "excluded match exclude path")
    case True
    have "path \<in> set (parents @ [path])" by simp
    from below_excluded [OF this True, of path dirs] True "2.prems"(2) show ?thesis
      by (simp add: callback_dir kept_files_def reached_def)
  next
    case False
    let ?st1 = "st\<lparr>visited := visited st @ [path]\<rparr>"
    from False "2.prems"(2) have clear: "clear_of match exclude (parents @ [path])"
      by (simp add: clear_of_def)
    from "2.prems"(1) have rd: "readable_list dirs" by simp
    have cb: "callback match exclude path True None st = (?st1, Continue)"
      using False by (simp add: callback_dir)
    have "walk_entries match exclude path dirs ?st1 =
       (\<lparr>files = files ?st1 @ kept_files match exclude (entries_of_list (parents @ [path]) path dirs),
         visited = visited ?st1 @ reached match exclude (entries_of_list (parents @ [path]) path dirs)\<rparr>,
        Continue)"
      by (rule "2.IH" [OF cb [symmetric] refl rd clear])
    with cb "2.prems"(2) show ?thesis
      by (simp add: kept_files_def reached_def)
  qed
next
  case (3 match exclude path n st)
  then show ?case by simp
next
  case (4 match exclude path st)
  then show ?case by simp
next
  case (5 match exclude path d1 dirs st)
  from "5.prems"(1) have r1: "readable d1" and r2: "readable_list dirs" by simp_all
  let ?st1 = "\<lparr>files = files st @ kept_files match exclude
                   (entries_of parents (Join path (entry_name d1)) d1),
               visited = visited st @ reached match exclude
                   (entries_of parents (Join path (entry_name d1)) d1)\<rparr>"
  have w1: "walkDir match exclude (Join path (entry_name d1)) d1 st = (?st1, Continue)"
    by (rule "5.IH"(1) [OF r1 "5.prems"(2)])
  have "walk_entries match exclude path dirs ?st1 =
       (\<lparr>files = files ?st1 @ kept_files match exclude (entries_of_list parents path dirs),
         visited = visited ?st1 @ reached match exclude (entries_of_list parents path dirs)\<rparr>,
        Continue)"
    by (rule "5.IH"(2) [OF w1 [symmetric] refl r2 "5.prems"(2)])
  with w1 show ?case by simp
qed

lemma ShouldExclude_loop_iff:
  "ShouldExclude_loop m ps path \<longleftrightarrow> (\<exists>p \<in> set ps. m p path \<or> m p (Base path))"
  by (induction ps) auto

lemma excluded_Some_iff:
  "excluded m (Some exc) path \<longleftrightarrow> (\<exists>p \<in> set (Patterns exc). m p path \<or> m p (Base path))"
  by (simp add: excluded_def ShouldExclude_def ShouldExclude_loop_iff)

lemma excluded_None: "\<not> excluded m None path"
  by (simp add: excluded_def)

lemma WalkDir_readable:
  assumes "readable t"
  shows "WalkDir m x dir (Some t) =
     (\<lparr>files = kept_files m x (entries_of [] dir t),
       visited = reached m x (entries_of [] dir t)\<rparr>, None)"
proof -
  have "clear_of m x []" by (simp add: clear_of_def)
  from walk_readable(1) [OF assms this, of dir "\<lparr>files = [], visited = []\<rparr>"]
  show ?thesis by (simp add: WalkDir_def)
qed

lemma ExpandDirectory_excluded_root:
  "excluded m x dir \<Longrightarrow> ExpandDirectory m dir (Some (Dir n dirs)) x = ([], None)"
  by (simp add: ExpandDirectory_def WalkDir_def callback_dir)

lemmas walk_example_defs = example_tree_def example_rule_def excluded_def ShouldExclude_def
  Base_def Join_def HasSuffix_def callback_def Let_def WalkDir_def ExpandDirectory_def

lemma example_walk:
  assumes "m ''**/node_modules/**'' ''/root/node_modules'' \<or> m ''**/node_modules/**'' ''node_modules''"
    and "\<not> m ''**/node_modules/**'' ''/root''" "\<not> m ''**/node_modules/**'' ''root''"
    and "\<not> m ''**/node_modules/**'' ''/root/src''" "\<not> m ''**/node_modules/**'' ''src''"
    and "\<not> m ''**/node_modules/**'' ''/root/src/main.go''" "\<not> m ''**/node_modules/**'' ''main.go''"
  shows "WalkDir m (Some example_rule) ''/root'' (Some example_tree) =
          (\<lparr>files = [''/root/src/main.go''],
            visited = [''/root'', ''/root/node_modules'', ''/root/src'', ''/root/src/main.go'']\<rparr>,
           None)"
proof -
  have b: "Base ''/root'' = ''root''" "Base ''/root/node_modules'' = ''node_modules''"
    "Base ''/root/src'' = ''src''" "Base ''/root/src/main.go'' = ''main.go''"
    by (simp_all add: Base_def)
  have e1: "\<not> excluded m (Some example_rule) ''/root''"
    using assms by (simp add: excluded_Some_iff example_rule_def b)
  have e2: "excluded m (Some example_rule) ''/root/node_modules''"
    using assms by (simp add: excluded_Some_iff example_rule_def b)
  have e3: "\<not> excluded m (Some example_rule) ''/root/src''"
    using assms by (simp add: excluded_Some_iff example_rule_def b)
  have e4: "\<not> excluded m (Some example_rule) ''/root/src/main.go''"
    using assms by (simp add: excluded_Some_iff example_rule_def b)
  have j: "Join ''/root'' ''node_modules'' = ''/root/node_modules''"
    "Join ''/root'' ''src'' = ''/root/src''" "Join ''/root/src'' ''main.go'' = ''/root/src/main.go''"
    by (simp_all add: Join_def HasSuffix_def)
  show ?thesis
    by (simp add: WalkDir_def example_tree_def callback_dir callback_file e1 e2 e3 e4 j)
qed

lemma glob_example:
  "glob_match ''**/node_modules/**'' ''/root/node_modules''"
  "glob_match ''**/node_modules/**'' ''node_modules''"
  "\<not> glob_match ''**/node_modules/**'' ''/root''"
  "\<not> glob_match ''**/node_modules/**'' ''root''"
  "\<not> glob_match ''**/node_modules/**'' ''/root/src''"
  "\<not> glob_match ''**/node_modules/**'' ''src''"
  "\<not> glob_match ''**/node_modules/**'' ''/root/src/main.go''"
  "\<not> glob_match ''**/node_modules/**'' ''main.go''"
  by (simp_all add: glob_match_def)

text \<open>
  C8. A path matches the rule when some pattern matches the path or its base name. A
  directory that matches (the root included) is reported to the callback and then
  skipped: the walk of it adds no file and visits nothing below it. A regular file that
  matches is left out, one that does not match is appended. For a tree that can be read
  the result is exactly the regular files that do not match and lie under no matching
  directory, and exactly the nodes under no matching directory are visited. For every
  matcher under which \<open>**/node_modules/**\<close> matches the directory
  \<open>/root/node_modules\<close> (by path or by base name) and none of \<open>/root\<close>,
  \<open>/root/src\<close>, \<open>/root/src/main.go\<close>, expanding \<open>/root\<close> yields exactly
  \<open>/root/src/main.go\<close>, and \<open>/root/node_modules/pkg\<close> is never visited.
\<close>

theorem ExpandDirectory_prunes_excluded:
  "(excluded match (Some exc) path \<longleftrightarrow>
      (\<exists>pattern \<in> set (Patterns exc). match pattern path \<or> match pattern (Base path)))
   \<and> (excluded match exclude path \<longrightarrow>
        walkDir match exclude path (Dir n dirs) (st :: walk_state)
          = (st\<lparr>visited := visited st @ [path]\<rparr>, Continue))
   \<and> (excluded match exclude path \<longrightarrow>
        files (fst (walkDir match exclude path (File n) st)) = files st)
   \<and> (\<not> excluded match exclude path \<longrightarrow>
        files (fst (walkDir match exclude path (File n) st)) = files st @ [path])
   \<and> (excluded match exclude dir \<longrightarrow>
        ExpandDirectory match dir (Some (Dir n dirs)) exclude = ([], None))
   \<and> (readable t \<longrightarrow>
        ExpandDirectory match dir (Some t) exclude
          = (kept_files match exclude (entries_of [] dir t), None)
        \<and> visited (fst (WalkDir match exclude dir (Some t)))
          = reached match exclude (entries_of [] dir t))
   \<and> ((match ''**/node_modules/**'' ''/root/node_modules''
          \<or> match ''**/node_modules/**'' ''node_modules'')
        \<and> \<not> match ''**/node_modules/**'' ''/root''
        \<and> \<not> match ''**/node_modules/**'' ''root''
        \<and> \<not> match ''**/node_modules/**'' ''/root/src''
        \<and> \<not> match ''**/node_modules/**'' ''src''
        \<and> \<not> match ''**/node_modules/**'' ''/root/src/main.go''
        \<and> \<not> match ''**/node_modules/**'' ''main.go'' \<longrightarrow>
        ExpandDirectory match ''/root'' (Some example_tree) (Some example_rule)
          = ([''/root/src/main.go''], None)
        \<and> visited (fst (WalkDir match (Some example_rule) ''/root'' (Some example_tree)))
          = [''/root'', ''/root/node_modules'', ''/root/src'', ''/root/src/main.go''])"
proof (intro conjI impI)
  show "excluded match (Some exc) path \<longleftrightarrow>
      (\<exists>pattern \<in> set (Patterns exc). match pattern path \<or> match pattern (Base path))"
    by (rule excluded_Some_iff)
next
  assume "excluded match exclude path"
  then show "walkDir match exclude path (Dir n dirs) st
          = (st\<lparr>visited := visited st @ [path]\<rparr>, Continue)"
    by (rule walkDir_excluded_dir)
next
  assume "excluded match exclude path"
  then show "files (fst (walkDir match exclude path (File n) st)) = files st"
    by (simp add: callback_file)
next
  assume "\<not> excluded match exclude path"
  then show "files (fst (walkDir match exclude path (File n) st)) = files st @ [path]"
    by (simp add: callback_file)
next
  assume "excluded match exclude dir"
  then show "ExpandDirectory match dir (Some (Dir n dirs)) exclude = ([], None)"
    by (rule ExpandDirectory_excluded_root)
next
  assume "readable t"
  then show "ExpandDirectory match dir (Some t) exclude
          = (kept_files match exclude (entries_of [] dir t), None)"
    by (simp add: ExpandDirectory_def WalkDir_readable)
next
  assume "readable t"
  then show "visited (fst (WalkDir match exclude dir (Some t)))
          = reached match exclude (entries_of [] dir t)"
    by (simp add: WalkDir_readable)
next
  assume h: "(match ''**/node_modules/**'' ''/root/node_modules''
          \<or> match ''**/node_modules/**'' ''node_modules'')
        \<and> \<not> match ''**/node_modules/**'' ''/root''
        \<and> \<not> match ''**/node_modules/**'' ''root''
        \<and> \<not> match ''**/node_modules/**'' ''/root/src''
        \<and> \<not> match ''**/node_modules/**'' ''src''
        \<and> \<not> match ''**/node_modules/**'' ''/root/src/main.go''
        \<and> \<not> match ''**/node_modules/**'' ''main.go''"
  then have w: "WalkDir match (Some example_rule) ''/root'' (Some example_tree) =
          (\<lparr>files = [''/root/src/main.go''],
            visited = [''/root'', ''/root/node_modules'', ''/root/src'', ''/root/src/main.go'']\<rparr>,
           None)"
    by (intro example_walk) simp_all
  show "ExpandDirectory match ''/root'' (Some example_tree) (Some example_rule)
          = ([''/root/src/main.go''], None)"
    by (simp add: ExpandDirectory_def w)
  show "visited (fst (WalkDir match (Some example_rule) ''/root'' (Some example_tree)))
          = [''/root'', ''/root/node_modules'', ''/root/src'', ''/root/src/main.go'']"
    by (simp add: w)
qed

theorem ExpandDirectory_prunes_excluded_witness:
  "glob_match ''**/node_modules/**'' ''/root/node_modules''
   \<and> excluded glob_match (Some example_rule) ''/root/node_modules''
   \<and> readable example_tree
   \<and> kept_files glob_match (Some example_rule) (entries_of [] ''/root'' example_tree)
       = [''/root/src/main.go'']
   \<and> ExpandDirectory glob_match ''/root'' (Some example_tree) (Some example_rule)
       = ([''/root/src/main.go''], None)
   \<and> visited (fst (WalkDir glob_match (Some example_rule) ''/root'' (Some example_tree)))
       = [''/root'', ''/root/node_modules'', ''/root/src'', ''/root/src/main.go'']
   \<and> ExpandDirectory glob_match ''/root/node_modules''
         (Some (Dir ''node_modules'' [Dir ''pkg'' [File ''index.js'']])) (Some example_rule)
       = ([], None)"
proof -
  have g: "(glob_match ''**/node_modules/**'' ''/root/node_modules''
          \<or> glob_match ''**/node_modules/**'' ''node_modules'')
        \<and> \<not> glob_match ''**/node_modules/**'' ''/root''
        \<and> \<not> glob_match ''**/node_modules/**'' ''root''
        \<and> \<not> glob_match ''**/node_modules/**'' ''/root/src''
        \<and> \<not> glob_match ''**/node_modules/**'' ''src''
        \<and> \<not> glob_match ''**/node_modules/**'' ''/root/src/main.go''
        \<and> \<not> glob_match ''**/node_modules/**'' ''main.go''"
    by (simp add: glob_example)
  have x: "excluded glob_match (Some example_rule) ''/root/node_modules''"
    by (simp add: excluded_Some_iff example_rule_def glob_example)
  have r: "readable example_tree"
    by (simp add: example_tree_def)
  note T = ExpandDirectory_prunes_excluded
    [of glob_match example_rule "''/root/node_modules''" "Some example_rule"
        "''node_modules''" "[Dir ''pkg'' [File ''index.js'']]" _ "''/root/node_modules''"
        example_tree]
  from T x have root: "ExpandDirectory glob_match ''/root/node_modules''
         (Some (Dir ''node_modules'' [Dir ''pkg'' [File ''index.js'']])) (Some example_rule)
       = ([], None)"
    by blast
  from ExpandDirectory_prunes_excluded
    [of glob_match example_rule "''/root''" "Some example_rule" _ _ _ "''/root''" example_tree]
    g r
  have ex: "ExpandDirectory glob_match ''/root'' (Some example_tree) (Some example_rule)
       = ([''/root/src/main.go''], None)"
    and vis: "visited (fst (WalkDir glob_match (Some example_rule) ''/root'' (Some example_tree)))
       = [''/root'', ''/root/node_modules'', ''/root/src'', ''/root/src/main.go'']"
    and kept: "ExpandDirectory glob_match ''/root'' (Some example_tree) (Some example_rule)
          = (kept_files glob_match (Some example_rule) (entries_of [] ''/root'' example_tree), None)"
    by blast+
  from ex kept have k: "kept_files glob_match (Some example_rule)
      (entries_of [] ''/root'' example_tree) = [''/root/src/main.go'']"
    by simp
  from x r k ex vis root show ?thesis
    by (simp add: glob_example)
qed

end
